theory Spec2Isabelle
  imports Complex_Main "HOL-Library.Char_ord" "HOL-Library.List_Lexorder"
begin

section \<open>Customer churn analysis: the data model\<close>

text \<open>
  The script \<^verbatim>\<open>notebooks/churn_analysis.py\<close> works on one pandas table, one row per
  customer. A row is a record with one field per column the script reads. Python floats
  are modelled as exact reals (no rounding error of the float arithmetic itself, no
  infinities); pandas' missing value NaN is \<open>None\<close> of an option type wherever the script
  can produce one. Integers are \<open>int\<close>, strings are \<open>string\<close>.

  The functions of pandas, numpy and scipy that the script calls are modelled by what
  their documentation says of the arguments the script passes, defaults included, for
  pandas 2 (where \<^verbatim>\<open>fillna(..., inplace=True)\<close> on a column writes the table and
  \<^verbatim>\<open>groupby\<close> keeps the empty categories of a categorical key).
\<close>

text \<open>The columns that the script reads from the CSV file and never overwrites.\<close>

record telco_row =
  customerID :: string
  tenure :: int
  MonthlyCharges :: real
  Churn :: string
  Contract :: string
  PaymentMethod :: string
  Partner :: string
  Dependents :: string
  PhoneService :: string
  MultipleLines :: string
  InternetService :: string
  OnlineSecurity :: string
  OnlineBackup :: string
  DeviceProtection :: string
  TechSupport :: string
  StreamingTV :: string
  StreamingMovies :: string

text \<open>
  A row as \<^verbatim>\<open>pd.read_csv\<close> delivers it. \<open>TotalCharges_raw\<close> is the cell of the
  TotalCharges column as \<^verbatim>\<open>pd.to_numeric(..., errors='coerce')\<close> reads it: \<open>None\<close> when
  the text is not a number (the file has blank cells there). \<open>SeniorCitizen_raw\<close> is
  the 0/1 indicator of the file.
\<close>

record raw_customer = telco_row +
  TotalCharges_raw :: "real option"
  SeniorCitizen_raw :: int

text \<open>A row of the prepared table, with the columns \<^verbatim>\<open>load_and_prepare_data\<close> derives.\<close>

record customer = telco_row +
  TotalCharges :: real
  SeniorCitizen :: "string option"
  Churned :: int
  TenureGroup :: "string option"
  RevenueAtRisk :: real
  ServiceCount :: int

datatype py_error = FileNotFoundError | OSError | ValueError | KeyError

section \<open>Record normalizer\<close>

text \<open>
  \<^verbatim>\<open>pd.cut(x, bins, labels)\<close> with the defaults \<^verbatim>\<open>right=True, include_lowest=False\<close>
  that the script leaves in place: consecutive edges \<open>lo, hi\<close> of \<open>bins\<close> form the
  interval \<open>(lo, hi]\<close>, open on the left and closed on the right, the first interval
  too; a value in no interval is NaN.
\<close>

fun pd_cut :: "int list \<Rightarrow> string list \<Rightarrow> int \<Rightarrow> string option" where
  "pd_cut (lo # hi # bins) (l # labels) x =
     (if lo < x \<and> x \<le> hi then Some l else pd_cut (hi # bins) labels x)"
| "pd_cut _ _ x = None"

definition tenure_bins :: "int list" where
  "tenure_bins = [0, 12, 24, 48, 72]"

definition tenure_labels :: "string list" where
  "tenure_labels = [''0-12 months'', ''13-24 months'', ''25-48 months'', ''49-72 months'']"

definition tenure_group :: "int \<Rightarrow> string option" where
  "tenure_group t = pd_cut tenure_bins tenure_labels t"

text \<open>\<^verbatim>\<open>df['SeniorCitizen'].map({0: 'No', 1: 'Yes'})\<close>: a value that is no key maps to NaN.\<close>

definition senior_map :: "int \<Rightarrow> string option" where
  "senior_map v = (if v = 0 then Some ''No'' else if v = 1 then Some ''Yes'' else None)"

text \<open>\<^verbatim>\<open>fillna(0)\<close> on one cell.\<close>

definition fillna0 :: "real option \<Rightarrow> real" where
  "fillna0 v = (case v of None \<Rightarrow> 0 | Some x \<Rightarrow> x)"

definition service_cols :: "('a telco_row_scheme \<Rightarrow> string) list" where
  "service_cols = [PhoneService, MultipleLines, InternetService,
                   OnlineSecurity, OnlineBackup, DeviceProtection,
                   TechSupport, StreamingTV, StreamingMovies]"

definition no_service_values :: "string list" where
  "no_service_values = [''No'', ''No phone service'', ''No internet service'']"

text \<open>
  The row function of the \<^verbatim>\<open>apply\<close> call:
  \<^verbatim>\<open>sum(1 for val in x if val not in ['No', 'No phone service', 'No internet service'])\<close>
  over the cells of the service columns of one row.
\<close>

definition service_count :: "'a telco_row_scheme \<Rightarrow> int" where
  "service_count r =
     sum_list (map (\<lambda>val. 1)
       (filter (\<lambda>val. val \<notin> set no_service_values) (map (\<lambda>c. c r) service_cols)))"

definition churned_flag :: "string \<Rightarrow> int" where
  "churned_flag label = (if label = ''Yes'' then 1 else 0)"

definition prepare_row :: "raw_customer \<Rightarrow> customer" where
  "prepare_row r =
     (let churned = churned_flag (Churn r) in
      \<lparr> customerID = customerID r, tenure = tenure r, MonthlyCharges = MonthlyCharges r,
        Churn = Churn r, Contract = Contract r, PaymentMethod = PaymentMethod r,
        Partner = Partner r, Dependents = Dependents r,
        PhoneService = PhoneService r, MultipleLines = MultipleLines r,
        InternetService = InternetService r, OnlineSecurity = OnlineSecurity r,
        OnlineBackup = OnlineBackup r, DeviceProtection = DeviceProtection r,
        TechSupport = TechSupport r, StreamingTV = StreamingTV r,
        StreamingMovies = StreamingMovies r,
        TotalCharges = fillna0 (TotalCharges_raw r),
        SeniorCitizen = senior_map (SeniorCitizen_raw r),
        Churned = churned,
        TenureGroup = tenure_group (tenure r),
        RevenueAtRisk = MonthlyCharges r * of_int churned,
        ServiceCount = service_count r \<rparr>)"

text \<open>
  What reading the file can do: the file is not there (\<^verbatim>\<open>FileNotFoundError\<close>), reading
  fails in another way (any other exception of \<^verbatim>\<open>pd.read_csv\<close>), or the rows arrive.
\<close>

datatype read_result = NotFound | Unreadable py_error | Contents "raw_customer list"

type_synonym filesystem = "string \<Rightarrow> read_result"

text \<open>
  \<^verbatim>\<open>load_and_prepare_data\<close>: the \<^verbatim>\<open>try\<close> block catches \<^verbatim>\<open>FileNotFoundError\<close> only and
  returns \<^verbatim>\<open>None\<close> then; any other exception leaves the function (\<open>Inl\<close>).
\<close>

definition load_and_prepare_data :: "filesystem \<Rightarrow> string \<Rightarrow> py_error + customer list option" where
  "load_and_prepare_data fs filepath =
     (case fs filepath of
        NotFound \<Rightarrow> Inr None
      | Unreadable e \<Rightarrow> Inl e
      | Contents rows \<Rightarrow> Inr (Some (map prepare_row rows)))"

section \<open>Risk scorer\<close>

definition calculate_risk_score :: "'a customer_scheme \<Rightarrow> int" where
  "calculate_risk_score row =
     (let score = 0;
          score = (if Contract row = ''Month-to-month'' then score + 3
                   else if Contract row = ''One year'' then score + 1 else score);
          score = (if tenure row \<le> 12 then score + 3
                   else if tenure row \<le> 24 then score + 1 else score);
          score = (if PaymentMethod row = ''Electronic check'' then score + 2 else score);
          score = (if TechSupport row = ''No'' \<and> InternetService row \<noteq> ''No''
                   then score + 2 else score);
          score = (if OnlineSecurity row = ''No'' \<and> InternetService row \<noteq> ''No''
                   then score + 2 else score);
          score = (if MonthlyCharges row > 80 then score + 2 else score);
          score = (if InternetService row = ''Fiber optic'' then score + 1 else score)
      in score)"

definition assign_risk_category :: "int \<Rightarrow> string" where
  "assign_risk_category score =
     (if score \<ge> 10 then ''Critical Risk''
      else if score \<ge> 7 then ''High Risk''
      else if score \<ge> 4 then ''Medium Risk''
      else ''Low Risk'')"

text \<open>The rule table of the risk scorer as the specification words it: nine independent rules.\<close>

definition pts :: "bool \<Rightarrow> int \<Rightarrow> int" where
  "pts applies points = (if applies then points else 0)"

definition rule_table_score :: "'a customer_scheme \<Rightarrow> int" where
  "rule_table_score row =
     pts (Contract row = ''Month-to-month'') 3
   + pts (Contract row = ''One year'') 1
   + pts (tenure row \<le> 12) 3
   + pts (12 < tenure row \<and> tenure row \<le> 24) 1
   + pts (PaymentMethod row = ''Electronic check'') 2
   + pts (TechSupport row = ''No'' \<and> InternetService row \<noteq> ''No'') 2
   + pts (OnlineSecurity row = ''No'' \<and> InternetService row \<noteq> ''No'') 2
   + pts (MonthlyCharges row > 80) 2
   + pts (InternetService row = ''Fiber optic'') 1"

section \<open>Segment aggregator\<close>

text \<open>
  The categorical columns the script groups by or tests, and how a cell of each is read.
  A missing cell (NaN) is \<open>None\<close>. TenureGroup is the one column of pandas' categorical
  type; its categories are the labels of the tenure buckets.
\<close>

datatype column = Contract_col | PaymentMethod_col | TenureGroup_col | InternetService_col
  | TechSupport_col | SeniorCitizen_col | Partner_col | Dependents_col | Churn_col

fun getcol :: "column \<Rightarrow> customer \<Rightarrow> string option" where
  "getcol Contract_col r = Some (Contract r)"
| "getcol PaymentMethod_col r = Some (PaymentMethod r)"
| "getcol TenureGroup_col r = TenureGroup r"
| "getcol InternetService_col r = Some (InternetService r)"
| "getcol TechSupport_col r = Some (TechSupport r)"
| "getcol SeniorCitizen_col r = SeniorCitizen r"
| "getcol Partner_col r = Some (Partner r)"
| "getcol Dependents_col r = Some (Dependents r)"
| "getcol Churn_col r = Some (Churn r)"

fun categories :: "column \<Rightarrow> string list option" where
  "categories TenureGroup_col = Some tenure_labels"
| "categories _ = None"

text \<open>\<^verbatim>\<open>Series.mean()\<close>: NaN for no values.\<close>

definition mean :: "real list \<Rightarrow> real option" where
  "mean xs = (if xs = [] then None else Some (sum_list xs / real (length xs)))"

text \<open>
  \<^verbatim>\<open>DataFrame.round(decimals)\<close> on a float cell is numpy's rounding: scale by
  \<open>10 ^ decimals\<close>, round to the nearest integer with ties to the even one, scale back.
  Integer columns are left as they are.
\<close>

definition rint :: "real \<Rightarrow> int" where
  "rint y = (let f = \<lfloor>y\<rfloor>; d = y - of_int f in
     if d < 1/2 then f else if d > 1/2 then f + 1 else if even f then f else f + 1)"

definition np_round :: "nat \<Rightarrow> real \<Rightarrow> real" where
  "np_round decimals x = of_int (rint (x * 10 ^ decimals)) / 10 ^ decimals"

text \<open>
  The groups of \<^verbatim>\<open>df.groupby(column)\<close>: the distinct values of the column in sorted
  order, rows with a missing key left out. For the categorical column the groups are all
  its categories in their order, also those without a row (the default
  \<^verbatim>\<open>observed=False\<close> of the pandas versions the script runs on).
\<close>

definition group_keys :: "column \<Rightarrow> customer list \<Rightarrow> string list" where
  "group_keys column df =
     (case categories column of
        Some cats \<Rightarrow> cats
      | None \<Rightarrow> sort (remdups (List.map_filter (getcol column) df)))"

definition group_members :: "column \<Rightarrow> customer list \<Rightarrow> string \<Rightarrow> customer list" where
  "group_members column df key = filter (\<lambda>r. getcol column r = Some key) df"

text \<open>
  One row of the table \<^verbatim>\<open>analyze_churn_by_segment\<close> returns. The columns are
  'Total Customers', 'Churned', 'Churn Rate', 'Total Revenue', 'Churn Rate %' and
  'Revenue at Risk'; \<open>segment\<close> is the index value.
\<close>

record segment_summary =
  segment :: string
  Total_Customers :: nat
  Churned_count :: int
  Churn_Rate :: "real option"
  Total_Revenue :: real
  Churn_Rate_pct :: "real option"
  Revenue_at_Risk :: "real option"

text \<open>
  The aggregation counts customerID, takes sum and mean of Churned and the sum of
  MonthlyCharges per group, and rounds the table to 4 decimals; the two derived columns are
  rounded to 1 and to 2 decimals. The printing is left out.
\<close>

definition analyze_churn_by_segment :: "customer list \<Rightarrow> column \<Rightarrow> segment_summary list" where
  "analyze_churn_by_segment df column =
     map (\<lambda>key.
        let members = group_members column df key;
            churn_rate = map_option (np_round 4) (mean (map (\<lambda>r. of_int (Churned r)) members));
            total_revenue = np_round 4 (sum_list (map MonthlyCharges members))
        in \<lparr> segment = key,
             Total_Customers = length members,
             Churned_count = sum_list (map Churned members),
             Churn_Rate = churn_rate,
             Total_Revenue = total_revenue,
             Churn_Rate_pct = map_option (\<lambda>rate. np_round 1 (rate * 100)) churn_rate,
             Revenue_at_Risk = map_option (\<lambda>rate. np_round 2 (total_revenue * rate)) churn_rate \<rparr>)
       (group_keys column df)"


section \<open>Sample tables\<close>

definition sample_raw :: raw_customer where
  "sample_raw = \<lparr> customerID = ''0001-SAMPL'', tenure = 30, MonthlyCharges = 50,
     Churn = ''No'', Contract = ''Two year'', PaymentMethod = ''Mailed check'',
     Partner = ''No'', Dependents = ''No'',
     PhoneService = ''Yes'', MultipleLines = ''No'', InternetService = ''DSL'',
     OnlineSecurity = ''Yes'', OnlineBackup = ''No'', DeviceProtection = ''No'',
     TechSupport = ''Yes'', StreamingTV = ''No'', StreamingMovies = ''No'',
     TotalCharges_raw = Some 100, SeniorCitizen_raw = 0 \<rparr>"

definition sample :: customer where
  "sample = prepare_row sample_raw"



section \<open>CLV projector\<close>

text \<open>
  The table \<^verbatim>\<open>calculate_clv\<close> works on: the rows of the prepared table and the two
  columns the function sets, each absent (\<open>None\<close>) until it is set, one value per row
  otherwise. Tables are objects: a variable holds a reference into a store of tables, so
  that copying a table and writing a column of the copy can be told from writing a column
  of the caller's table.
\<close>

record table =
  rows :: "customer list"
  ProjectedCLV :: "real list option"
  CLVAtRisk :: "real list option"

type_synonym ref = nat
type_synonym store = "table list"

text \<open>\<^verbatim>\<open>df.copy()\<close>: a new object with the same columns.\<close>

definition df_copy :: "store \<Rightarrow> ref \<Rightarrow> store \<times> ref" where
  "df_copy h df = (h @ [h ! df], length h)"

text \<open>\<^verbatim>\<open>df[name] = values\<close> writes the column of the object that \<open>df\<close> refers to.\<close>

definition set_ProjectedCLV :: "store \<Rightarrow> ref \<Rightarrow> real list \<Rightarrow> store" where
  "set_ProjectedCLV h df values = h[df := (h ! df)\<lparr>ProjectedCLV := Some values\<rparr>]"

definition set_CLVAtRisk :: "store \<Rightarrow> ref \<Rightarrow> real list \<Rightarrow> store" where
  "set_CLVAtRisk h df values = h[df := (h ! df)\<lparr>CLVAtRisk := Some values\<rparr>]"

text \<open>\<^verbatim>\<open>df['ProjectedCLV']\<close> raises \<^verbatim>\<open>KeyError\<close> when the table has no such column.\<close>

definition get_ProjectedCLV :: "store \<Rightarrow> ref \<Rightarrow> py_error + real list" where
  "get_ProjectedCLV h df = (case ProjectedCLV (h ! df) of None \<Rightarrow> Inl KeyError | Some values \<Rightarrow> Inr values)"

text \<open>
  The arithmetic on columns is row by row. \<open>Churned\<close> is an integer column; the
  product with it is a float.
\<close>

definition calculate_clv :: "store \<Rightarrow> ref \<Rightarrow> real \<Rightarrow> py_error + store \<times> ref" where
  "calculate_clv h df projection_months =
     (let (h, df) = df_copy h df;
          h = set_ProjectedCLV h df
                (map2 (+) (map TotalCharges (rows (h ! df)))
                          (map (\<lambda>charge. charge * projection_months)
                               (map MonthlyCharges (rows (h ! df)))))
      in case get_ProjectedCLV h df of
           Inl e \<Rightarrow> Inl e
         | Inr projected \<Rightarrow>
             let h = set_CLVAtRisk h df
                       (map2 (\<lambda>clv churned. clv * of_int churned) projected
                             (map Churned (rows (h ! df))))
             in Inr (h, df))"

text \<open>The default \<^verbatim>\<open>projection_months=36\<close>.\<close>

definition default_projection_months :: real where
  "default_projection_months = 36"

definition calculate_clv_default :: "store \<Rightarrow> ref \<Rightarrow> py_error + store \<times> ref" where
  "calculate_clv_default h df = calculate_clv h df default_projection_months"

text \<open>A table of two customers with the same charges, the second one churned.\<close>

definition sample_table :: table where
  "sample_table = \<lparr> rows = [sample, prepare_row (sample_raw\<lparr>Churn := ''Yes''\<rparr>)], ProjectedCLV = None, CLVAtRisk = None \<rparr>"

section \<open>Independence tester\<close>

text \<open>
  \<^verbatim>\<open>pd.crosstab(index, columns)\<close> counts the rows of the table by the values of two
  columns. A row with a missing value in either column is left out; the row labels are the
  values of the first column that remain, in sorted order, the column labels those of the
  second; a combination that no row has counts 0. The script calls it on string columns.
\<close>

definition both_present :: "'a option \<times> 'b option \<Rightarrow> ('a \<times> 'b) option" where
  "both_present p = (case p of (Some a, Some b) \<Rightarrow> Some (a, b) | _ \<Rightarrow> None)"

definition observed_pairs :: "'a option list \<Rightarrow> 'b option list \<Rightarrow> ('a \<times> 'b) list" where
  "observed_pairs index columns = List.map_filter both_present (zip index columns)"

definition observed_categories :: "'a::linorder list \<Rightarrow> 'a list" where
  "observed_categories values = sort (remdups values)"

definition crosstab :: "'a::linorder option list \<Rightarrow> 'b::linorder option list \<Rightarrow> nat list list" where
  "crosstab index columns =
     (let pairs = observed_pairs index columns;
          row_keys = observed_categories (map fst pairs);
          col_keys = observed_categories (map snd pairs)
      in map (\<lambda>a. map (\<lambda>b. count_list pairs (a, b)) col_keys) row_keys)"

text \<open>
  \<^verbatim>\<open>scipy.stats.chi2_contingency(observed)\<close> with its defaults
  \<^verbatim>\<open>correction=True, lambda_=None\<close>, on a two-dimensional table of counts. It raises
  \<^verbatim>\<open>ValueError\<close> for a table without cells and for an expected frequency of zero. The
  expected frequencies are the products of the marginal sums over the total. The degrees of
  freedom are \<^verbatim>\<open>expected.size - sum(expected.shape) + expected.ndim - 1\<close>. With no degree
  of freedom the result is the statistic 0.0 and the p-value 1.0. With one degree of
  freedom each observed count is first moved towards its expected frequency by 0.5, or by
  their distance where that is less (Yates' correction for continuity). The statistic is
  Pearson's sum of \<^verbatim>\<open>(observed - expected)**2 / expected\<close> over all cells. The p-value is
  the survival function of the chi-square distribution, a parameter \<open>sf\<close> of the model.
  A table of zeros only has expected frequencies 0/0, which is NaN in floats and in the
  result; no crosstab is such a table.
\<close>

definition table_size :: "'a list list \<Rightarrow> nat" where
  "table_size observed = sum_list (map length observed)"

definition num_rows :: "'a list list \<Rightarrow> nat" where
  "num_rows observed = length observed"

definition num_cols :: "'a list list \<Rightarrow> nat" where
  "num_cols observed = (case observed of [] \<Rightarrow> 0 | row # _ \<Rightarrow> length row)"

definition expected_freq :: "real list list \<Rightarrow> real list list" where
  "expected_freq observed =
     (let row_sums = map sum_list observed;
          col_sums = map sum_list (transpose observed);
          total = sum_list row_sums
      in map (\<lambda>r. map (\<lambda>c. r * c / total) col_sums) row_sums)"

definition yates :: "real \<Rightarrow> real \<Rightarrow> real" where
  "yates obs expd = (let diff = expd - obs in obs + min (1/2) \<bar>diff\<bar> * sgn diff)"

definition pearson_statistic :: "real list list \<Rightarrow> real list list \<Rightarrow> real" where
  "pearson_statistic observed expected =
     sum_list (map2 (\<lambda>obs expd. (obs - expd)\<^sup>2 / expd) (concat observed) (concat expected))"

datatype chi2_result = Chi2 real real int | Chi2_NaN int

definition chi2_contingency :: "(real \<Rightarrow> int \<Rightarrow> real) \<Rightarrow> nat list list \<Rightarrow> py_error + chi2_result" where
  "chi2_contingency sf counts =
     (let observed = map (map real) counts in
      if table_size observed = 0 then Inl ValueError
      else
        let dof = int (table_size observed) - (int (num_rows observed) + int (num_cols observed)) + 2 - 1 in
        if sum_list (map sum_list observed) = 0 then Inr (Chi2_NaN dof)
        else
          let expected = expected_freq observed in
          if \<exists>e \<in> set (concat expected). e = 0 then Inl ValueError
          else if dof = 0 then Inr (Chi2 0 1 dof)
          else
            let observed = (if dof = 1 then map2 (map2 yates) observed expected else observed);
                chi2 = pearson_statistic observed expected
            in Inr (Chi2 chi2 (sf chi2 dof) dof))"

text \<open>
  \<^verbatim>\<open>chi_square_test(df, column1, column2='Churn')\<close>; the fourth component of scipy's result
  is dropped.
\<close>

definition chi_square_test :: "(real \<Rightarrow> int \<Rightarrow> real) \<Rightarrow> customer list \<Rightarrow> column \<Rightarrow> column \<Rightarrow> py_error + chi2_result" where
  "chi_square_test sf df column1 column2 =
     (let contingency = crosstab (map (getcol column1) df) (map (getcol column2) df)
      in chi2_contingency sf contingency)"

text \<open>
  Four customers: two with a partner who churned, two without a partner who stayed.
\<close>

definition four_customers :: "customer list" where
  "four_customers = map prepare_row
     [sample_raw\<lparr>Partner := ''Yes'', Churn := ''Yes''\<rparr>, sample_raw\<lparr>Partner := ''Yes'', Churn := ''Yes''\<rparr>,
      sample_raw\<lparr>Partner := ''No'', Churn := ''No''\<rparr>, sample_raw\<lparr>Partner := ''No'', Churn := ''No''\<rparr>]"

section \<open>Impact estimator\<close>

text \<open>
  Section 7 of the script, a block of top-level statements, one definition per
  intervention. Python's \<^verbatim>\<open>int(x)\<close> on a float truncates towards zero; on NaN it raises
  \<^verbatim>\<open>ValueError\<close>.
\<close>

definition py_int :: "real \<Rightarrow> int" where
  "py_int x = (if 0 \<le> x then \<lfloor>x\<rfloor> else \<lceil>x\<rceil>)"

text \<open>
  Arithmetic with a possibly missing operand: the result is NaN when an operand is.
\<close>

definition nan2 :: "(real \<Rightarrow> real \<Rightarrow> real) \<Rightarrow> real option \<Rightarrow> real option \<Rightarrow> real option" where
  "nan2 f x y = (case (x, y) of (Some a, Some b) \<Rightarrow> Some (f a b) | _ \<Rightarrow> None)"

text \<open>
  \<^verbatim>\<open>selection['Churned'].mean()\<close>: the churn rate of a selection of rows, NaN for none.
\<close>

definition churned_mean :: "customer list \<Rightarrow> real option" where
  "churned_mean selection = mean (map (\<lambda>r. of_int (Churned r)) selection)"

text \<open>
  \<^verbatim>\<open>Series.str.contains(pat, case=False)\<close> for a pattern of plain characters: the pattern
  occurs somewhere in the cell, letters compared without case (ASCII letters here).
\<close>

definition lower_char :: "char \<Rightarrow> char" where
  "lower_char c = (if CHR ''A'' \<le> c \<and> c \<le> CHR ''Z'' then char_of (of_char c + (32::nat)) else c)"

fun starts_with :: "string \<Rightarrow> string \<Rightarrow> bool" where
  "starts_with [] s = True"
| "starts_with (p # pat) [] = False"
| "starts_with (p # pat) (c # s) = (p = c \<and> starts_with pat s)"

fun str_contains :: "string \<Rightarrow> string \<Rightarrow> bool" where
  "str_contains s pat = (starts_with pat s \<or> (case s of [] \<Rightarrow> False | c # rest \<Rightarrow> str_contains rest pat))"

definition str_contains_nocase :: "string \<Rightarrow> string \<Rightarrow> bool" where
  "str_contains_nocase s pat = str_contains (map lower_char s) (map lower_char pat)"

text \<open>
  Intervention 1, contract migration from monthly to annual. The record holds the
  variables the block sets.
\<close>

record contract_migration_result =
  monthly_customers :: nat
  converted_customers :: int
  churn_reduction :: real
  customers_saved :: int
  revenue_saved_contract :: "real option"

definition contract_migration :: "customer list \<Rightarrow> py_error + contract_migration_result" where
  "contract_migration df =
     (let monthly_customers = length (filter (\<lambda>r. Contract r = ''Month-to-month'') df);
          monthly_churn = churned_mean (filter (\<lambda>r. Contract r = ''Month-to-month'') df);
          annual_churn = churned_mean (filter (\<lambda>r. Contract r = ''One year'') df);
          conversion_rate = 0.30;
          converted_customers = py_int (real monthly_customers * conversion_rate)
      in case nan2 (-) monthly_churn annual_churn of
           None \<Rightarrow> Inl ValueError
         | Some reduction \<Rightarrow>
             let customers_saved = py_int (of_int converted_customers * reduction);
                 avg_monthly_charge = mean (map MonthlyCharges df);
                 revenue_saved_contract =
                   map_option (\<lambda>avg. of_int customers_saved * avg * 12) avg_monthly_charge
             in Inr \<lparr> monthly_customers = monthly_customers,
                      converted_customers = converted_customers,
                      churn_reduction = reduction,
                      customers_saved = customers_saved,
                      revenue_saved_contract = revenue_saved_contract \<rparr>)"

text \<open>
  Intervention 2, payment migration from electronic check to credit card. The targeted
  customers are the active ones paying by electronic check; the two churn rates are over
  all customers of each payment method.
\<close>

record payment_migration_result =
  echeck_customers :: nat
  migrated_customers :: int
  churn_reduction_payment :: real
  customers_saved_payment :: int
  revenue_saved_payment :: "real option"

definition payment_migration :: "customer list \<Rightarrow> py_error + payment_migration_result" where
  "payment_migration df =
     (let echeck_customers = length (filter (\<lambda>r. PaymentMethod r = ''Electronic check''
                                                  \<and> Churned r = 0) df);
          echeck_churn = churned_mean (filter (\<lambda>r. PaymentMethod r = ''Electronic check'') df);
          cc_churn = churned_mean (filter (\<lambda>r. str_contains_nocase (PaymentMethod r) ''credit card'') df);
          migration_rate = 0.40;
          migrated_customers = py_int (real echeck_customers * migration_rate)
      in case nan2 (-) echeck_churn cc_churn of
           None \<Rightarrow> Inl ValueError
         | Some reduction \<Rightarrow>
             let customers_saved_payment = py_int (of_int migrated_customers * reduction);
                 avg_monthly_charge = mean (map MonthlyCharges df);
                 revenue_saved_payment =
                   map_option (\<lambda>avg. of_int customers_saved_payment * avg * 12) avg_monthly_charge
             in Inr \<lparr> echeck_customers = echeck_customers,
                      migrated_customers = migrated_customers,
                      churn_reduction_payment = reduction,
                      customers_saved_payment = customers_saved_payment,
                      revenue_saved_payment = revenue_saved_payment \<rparr>)"

text \<open>
  Intervention 3, tech support for all internet plans, at a cost of 8 per month and
  customer.
\<close>

record tech_support_result =
  no_tech :: nat
  customers_saved_tech :: int
  revenue_saved_tech :: "real option"
  tech_investment :: int
  net_benefit_tech :: "real option"

definition tech_support_bundling :: "customer list \<Rightarrow> py_error + tech_support_result" where
  "tech_support_bundling df =
     (let no_tech = length (filter (\<lambda>r. TechSupport r = ''No'' \<and> InternetService r \<noteq> ''No''
                                         \<and> Churned r = 0) df);
          no_tech_churn = churned_mean (filter (\<lambda>r. TechSupport r = ''No''
                                                    \<and> InternetService r \<noteq> ''No'') df);
          with_tech_churn = churned_mean (filter (\<lambda>r. TechSupport r = ''Yes'') df);
          tech_cost_per_customer = 8 * 12
      in case nan2 (-) no_tech_churn with_tech_churn of
           None \<Rightarrow> Inl ValueError
         | Some reduction \<Rightarrow>
             let customers_saved_tech = py_int (real no_tech * reduction);
                 avg_monthly_charge = mean (map MonthlyCharges df);
                 revenue_saved_tech =
                   map_option (\<lambda>avg. of_int customers_saved_tech * avg * 12) avg_monthly_charge;
                 tech_investment = int no_tech * tech_cost_per_customer;
                 net_benefit_tech = map_option (\<lambda>revenue. revenue - of_int tech_investment) revenue_saved_tech
             in Inr \<lparr> no_tech = no_tech,
                      customers_saved_tech = customers_saved_tech,
                      revenue_saved_tech = revenue_saved_tech,
                      tech_investment = tech_investment,
                      net_benefit_tech = net_benefit_tech \<rparr>)"



section \<open>The script\<close>

text \<open>
  The script is a sequence of sections at module level. Each section that computes on the
  data is guarded by \<^verbatim>\<open>if df is not None\<close>. The model threads the global variables
  the sections set; an exception that no handler catches ends the run (\<open>Inl\<close>). Printing
  is left out, and so are the plots and the CSV export, which are guarded in the same way
  and wrapped in handlers that catch every exception.

  The path of the data file is a Windows path; its separators are backslashes.
\<close>

definition backslash :: string where
  "backslash = [CHR 0x5C]"

definition DATA_PATH :: string where
  "DATA_PATH = ''C:'' @ backslash @ ''Projects'' @ backslash @ ''Data Analyst Projects''
     @ backslash @ ''customer-churn-analysis'' @ backslash @ ''data''
     @ backslash @ ''WA_Fn-UseC_-Telco-Customer-Churn.csv''"

text \<open>
  Section 5 selects the active and the churned customers and attaches to each selection
  the columns RiskScore and RiskCategory, computed row by row
  (\<^verbatim>\<open>apply(calculate_risk_score, axis=1)\<close>, then \<^verbatim>\<open>apply(assign_risk_category)\<close>). The
  two CLV columns of the selection are not carried along, and a selection without rows is
  the empty list.
\<close>

record scored_customer = customer +
  RiskScore :: int
  RiskCategory :: string

definition score_customers :: "customer list \<Rightarrow> scored_customer list" where
  "score_customers selection =
     map (\<lambda>row. let score = calculate_risk_score row
                in customer.extend row (scored_customer.fields score (assign_risk_category score)))
         selection"

text \<open>
  Section 7: the current state, the three interventions and their total. The division by
  the number of customers is reached only for a table with rows.
\<close>

record impact_summary =
  total_customers :: nat
  churned_count :: int
  churn_rate :: "real option"
  monthly_revenue_loss :: real
  annual_revenue_loss :: real
  contract_scenario :: contract_migration_result
  payment_scenario :: payment_migration_result
  tech_scenario :: tech_support_result
  total_customers_saved :: int
  total_revenue_protected :: "real option"
  new_churn_rate :: real
  intervention_cost :: int

definition business_impact :: "customer list \<Rightarrow> py_error + impact_summary" where
  "business_impact df =
     (let total_customers = length df;
          churned_count = sum_list (map Churned df);
          churn_rate = churned_mean df;
          monthly_revenue_loss = sum_list (map MonthlyCharges (filter (\<lambda>r. Churned r = 1) df));
          annual_revenue_loss = monthly_revenue_loss * 12
      in case contract_migration df of
           Inl e \<Rightarrow> Inl e
         | Inr c \<Rightarrow>
        (case payment_migration df of
           Inl e \<Rightarrow> Inl e
         | Inr p \<Rightarrow>
        (case tech_support_bundling df of
           Inl e \<Rightarrow> Inl e
         | Inr t \<Rightarrow>
             let total_customers_saved =
                   customers_saved c + customers_saved_payment p + customers_saved_tech t;
                 total_revenue_protected =
                   nan2 (+) (nan2 (+) (revenue_saved_contract c) (revenue_saved_payment p))
                        (net_benefit_tech t);
                 new_churn_rate = of_int (churned_count - total_customers_saved) / real total_customers;
                 intervention_cost = 180000
             in Inr \<lparr> total_customers = total_customers,
                      churned_count = churned_count,
                      churn_rate = churn_rate,
                      monthly_revenue_loss = monthly_revenue_loss,
                      annual_revenue_loss = annual_revenue_loss,
                      contract_scenario = c,
                      payment_scenario = p,
                      tech_scenario = t,
                      total_customers_saved = total_customers_saved,
                      total_revenue_protected = total_revenue_protected,
                      new_churn_rate = new_churn_rate,
                      intervention_cost = intervention_cost \<rparr>)))"

text \<open>
  The global variables: the store of tables and the reference \<open>df\<close> (\<open>None\<close> for
  Python's \<^verbatim>\<open>None\<close>), the six segment analyses, the list of test results, the scored
  selections and the impact summary. A variable that no section has set is \<open>None\<close>.
\<close>

record script_state =
  tables :: store
  the_df :: "ref option"
  segment_analyses :: "segment_summary list list option"
  results :: "(column \<times> chi2_result) list option"
  active_customers :: "scored_customer list option"
  churned_customers :: "scored_customer list option"
  impact :: "impact_summary option"

definition then_run :: "'e + 'a \<Rightarrow> ('a \<Rightarrow> 'e + 'b) \<Rightarrow> 'e + 'b" where
  "then_run step rest = (case step of Inl e \<Rightarrow> Inl e | Inr s \<Rightarrow> rest s)"

definition load_section :: "filesystem \<Rightarrow> py_error + script_state" where
  "load_section fs =
     (case load_and_prepare_data fs DATA_PATH of
        Inl e \<Rightarrow> Inl e
      | Inr loaded \<Rightarrow>
          Inr \<lparr> tables = (case loaded of
                             None \<Rightarrow> []
                           | Some prepared \<Rightarrow> [\<lparr> rows = prepared, ProjectedCLV = None, CLVAtRisk = None \<rparr>]),
                the_df = (case loaded of None \<Rightarrow> None | Some prepared \<Rightarrow> Some 0),
                segment_analyses = None, results = None, active_customers = None,
                churned_customers = None, impact = None \<rparr>)"

definition segment_section :: "script_state \<Rightarrow> script_state" where
  "segment_section s =
     (case the_df s of
        None \<Rightarrow> s
      | Some df \<Rightarrow>
          let d = rows (tables s ! df) in
          s\<lparr> segment_analyses := Some
               [analyze_churn_by_segment d Contract_col,
                analyze_churn_by_segment d PaymentMethod_col,
                analyze_churn_by_segment d TenureGroup_col,
                analyze_churn_by_segment d InternetService_col,
                analyze_churn_by_segment d TechSupport_col,
                analyze_churn_by_segment d SeniorCitizen_col] \<rparr>)"

text \<open>
  Section 3 tests each column of the list against the raw label column Churn, the default
  of \<^verbatim>\<open>column2\<close>, in order; the first test that raises ends the loop.
\<close>

definition test_columns :: "column list" where
  "test_columns = [Contract_col, PaymentMethod_col, TechSupport_col, InternetService_col,
                   SeniorCitizen_col, Partner_col, Dependents_col]"

fun chi_square_tests ::
  "(real \<Rightarrow> int \<Rightarrow> real) \<Rightarrow> customer list \<Rightarrow> column list \<Rightarrow> py_error + (column \<times> chi2_result) list" where
  "chi_square_tests sf d [] = Inr []"
| "chi_square_tests sf d (col # cols) =
     (case chi_square_test sf d col Churn_col of
        Inl e \<Rightarrow> Inl e
      | Inr result \<Rightarrow>
          (case chi_square_tests sf d cols of
             Inl e \<Rightarrow> Inl e
           | Inr others \<Rightarrow> Inr ((col, result) # others)))"

definition significance_section :: "(real \<Rightarrow> int \<Rightarrow> real) \<Rightarrow> script_state \<Rightarrow> py_error + script_state" where
  "significance_section sf s =
     (case the_df s of
        None \<Rightarrow> Inr s
      | Some df \<Rightarrow>
          (case chi_square_tests sf (rows (tables s ! df)) test_columns of
             Inl e \<Rightarrow> Inl e
           | Inr tested \<Rightarrow> Inr (s\<lparr> results := Some tested \<rparr>)))"

definition clv_section :: "script_state \<Rightarrow> py_error + script_state" where
  "clv_section s =
     (case the_df s of
        None \<Rightarrow> Inr s
      | Some df \<Rightarrow>
          (case calculate_clv_default (tables s) df of
             Inl e \<Rightarrow> Inl e
           | Inr (h, df') \<Rightarrow> Inr (s\<lparr> tables := h, the_df := Some df' \<rparr>)))"

definition risk_section :: "script_state \<Rightarrow> script_state" where
  "risk_section s =
     (case the_df s of
        None \<Rightarrow> s
      | Some df \<Rightarrow>
          let d = rows (tables s ! df) in
          s\<lparr> active_customers := Some (score_customers (filter (\<lambda>r. Churned r = 0) d)),
             churned_customers := Some (score_customers (filter (\<lambda>r. Churned r = 1) d)) \<rparr>)"

definition impact_section :: "script_state \<Rightarrow> py_error + script_state" where
  "impact_section s =
     (case the_df s of
        None \<Rightarrow> Inr s
      | Some df \<Rightarrow>
          (case business_impact (rows (tables s ! df)) of
             Inl e \<Rightarrow> Inl e
           | Inr summary \<Rightarrow> Inr (s\<lparr> impact := Some summary \<rparr>)))"

definition script :: "(real \<Rightarrow> int \<Rightarrow> real) \<Rightarrow> filesystem \<Rightarrow> py_error + script_state" where
  "script sf fs =
     then_run (load_section fs) (\<lambda>s.
     then_run (significance_section sf (segment_section s)) (\<lambda>s.
     then_run (clv_section s) (\<lambda>s.
     impact_section (risk_section s))))"

text \<open>
  A file of five rows on which every section runs, a file system without the data file,
  and one that holds the file.
\<close>

definition full_table :: "raw_customer list" where
  "full_table =
     replicate 2 (sample_raw\<lparr>Contract := ''Month-to-month'', Churn := ''Yes'',
                             PaymentMethod := ''Electronic check'', TechSupport := ''No''\<rparr>)
   @ replicate 2 (sample_raw\<lparr>Contract := ''Month-to-month'',
                             PaymentMethod := ''Electronic check'', TechSupport := ''No''\<rparr>)
   @ [sample_raw\<lparr>Contract := ''One year'', PaymentMethod := ''Credit card (automatic)''\<rparr>]"

definition no_file :: filesystem where
  "no_file path = NotFound"

definition one_file :: filesystem where
  "one_file path = (if path = DATA_PATH then Contents full_table else NotFound)"

section \<open>Theorems\<close>

subsection \<open>Risk scorer\<close>

text \<open>
  C1. For every record the score that \<open>calculate_risk_score\<close> returns is the sum of
  the points of all rules of the fixed table that match: 3 for a month-to-month contract,
  1 for a one-year contract, 3 for tenure at most 12, 1 for tenure above 12 and at most 24,
  2 for payment by electronic check, 2 for no tech support with an internet service,
  2 for no online security with an internet service, 2 for a monthly charge above 80,
  1 for fiber optic internet. Every matching rule contributes.
\<close>

theorem risk_score_is_rule_table_sum:
  "calculate_risk_score row = rule_table_score row"
  by (simp add: calculate_risk_score_def rule_table_score_def pts_def Let_def)

text \<open>
  C2. For every record the risk score lies between 0 and 15, and the category has exact
  boundaries: a score of 10 or more is Critical, a score from 7 to 9 is High, a score from
  4 to 6 is Medium, a score below 4 is Low; score 6 is Medium and score 7 is High.
\<close>

theorem risk_score_range_and_category_boundaries:
  "0 \<le> calculate_risk_score row \<and> calculate_risk_score row \<le> 15
   \<and> (assign_risk_category score = ''Critical Risk'') = (10 \<le> score)
   \<and> (assign_risk_category score = ''High Risk'') = (7 \<le> score \<and> score < 10)
   \<and> (assign_risk_category score = ''Medium Risk'') = (4 \<le> score \<and> score < 7)
   \<and> (assign_risk_category score = ''Low Risk'') = (score < 4)
   \<and> assign_risk_category 6 = ''Medium Risk'' \<and> assign_risk_category 7 = ''High Risk''
   \<and> assign_risk_category 3 = ''Low Risk'' \<and> assign_risk_category 4 = ''Medium Risk''
   \<and> assign_risk_category 9 = ''High Risk'' \<and> assign_risk_category 10 = ''Critical Risk''"
proof -
  have range: "0 \<le> calculate_risk_score row \<and> calculate_risk_score row \<le> 15"
    by (simp add: calculate_risk_score_def Let_def)
  have cats: "(assign_risk_category score = ''Critical Risk'') = (10 \<le> score)"
    "(assign_risk_category score = ''High Risk'') = (7 \<le> score \<and> score < 10)"
    "(assign_risk_category score = ''Medium Risk'') = (4 \<le> score \<and> score < 7)"
    "(assign_risk_category score = ''Low Risk'') = (score < 4)"
    by (auto simp add: assign_risk_category_def)
  have points: "assign_risk_category 6 = ''Medium Risk''" "assign_risk_category 7 = ''High Risk''"
    "assign_risk_category 3 = ''Low Risk''" "assign_risk_category 4 = ''Medium Risk''"
    "assign_risk_category 9 = ''High Risk''" "assign_risk_category 10 = ''Critical Risk''"
    by (simp_all add: assign_risk_category_def)
  from range cats points show ?thesis by blast
qed

subsection \<open>Record normalizer\<close>

lemma sum_list_ones: "0 \<le> sum_list (map (\<lambda>val. 1::int) xs) \<and> sum_list (map (\<lambda>val. 1::int) xs) = int (length xs)"
  by (induction xs) auto

text \<open>
  C9. For every record the derived service count is the number of the nine service fields
  (phone service, multiple lines, internet service, online security, online backup,
  device protection, tech support, streaming TV, streaming movies) whose value is none of
  "No", "No phone service", "No internet service"; it lies between 0 and 9.
\<close>

theorem service_count_counts_active_services:
  "ServiceCount (prepare_row r) =
     int (card {i. i < 9 \<and>
        [PhoneService r, MultipleLines r, InternetService r, OnlineSecurity r,
         OnlineBackup r, DeviceProtection r, TechSupport r, StreamingTV r,
         StreamingMovies r] ! i \<notin> {''No'', ''No phone service'', ''No internet service''}})
   \<and> 0 \<le> ServiceCount (prepare_row r) \<and> ServiceCount (prepare_row r) \<le> 9"
proof -
  let ?vals = "[PhoneService r, MultipleLines r, InternetService r, OnlineSecurity r,
         OnlineBackup r, DeviceProtection r, TechSupport r, StreamingTV r,
         StreamingMovies r]"
  let ?P = "\<lambda>val. val \<notin> {''No'', ''No phone service'', ''No internet service''}"
  have sc: "ServiceCount (prepare_row r) = int (length (filter ?P ?vals))"
    unfolding prepare_row_def Let_def service_count_def service_cols_def no_service_values_def
    by (simp add: sum_list_ones del: filter.simps)
  have len: "length ?vals = 9" by simp
  have "length (filter ?P ?vals) = card {i. i < length ?vals \<and> ?P (?vals ! i)}"
    by (rule length_filter_conv_card)
  then have card: "length (filter ?P ?vals) = card {i. i < 9 \<and> ?P (?vals ! i)}"
    by (simp only: len)
  have "length (filter ?P ?vals) \<le> length ?vals"
    by (rule length_filter_le)
  then have le: "length (filter ?P ?vals) \<le> 9" by (simp only: len)
  from sc card le show ?thesis by simp
qed

text \<open>Inside the range 1 to 72 the tenure group is the bucket of the partition.\<close>

lemma tenure_group_from_1:
  "tenure_group t =
     (if 0 < t \<and> t \<le> 12 then Some ''0-12 months''
      else if 12 < t \<and> t \<le> 24 then Some ''13-24 months''
      else if 24 < t \<and> t \<le> 48 then Some ''25-48 months''
      else if 48 < t \<and> t \<le> 72 then Some ''49-72 months''
      else None)"
  by (simp add: tenure_group_def tenure_bins_def tenure_labels_def)

text \<open>
  C4. Every tenure from 0 to 72 is said to fall into its bucket of the partition
  [0,12], (12,24], (24,48], (48,72], tenure 0 into the first. In the code the first bucket
  is open at 0: a customer with tenure 0 gets no tenure group at all (NaN), although the
  bucket is labelled "0-12 months". The boundary values 12, 24 and 48 do resolve into the
  lower bucket.
\<close>

theorem tenure_group_zero_is_missing:
  "tenure_group 0 = None
   \<and> TenureGroup (prepare_row (r\<lparr>tenure := 0\<rparr>)) = None
   \<and> tenure_group 1 = Some ''0-12 months''
   \<and> tenure_group 12 = Some ''0-12 months''
   \<and> tenure_group 24 = Some ''13-24 months''
   \<and> tenure_group 48 = Some ''25-48 months''"
  by (simp add: prepare_row_def Let_def tenure_group_def tenure_bins_def tenure_labels_def)

subsection \<open>Segment aggregator\<close>









subsection \<open>CLV projector\<close>

lemma map2_same_list: "map2 F (map f xs) (map g xs) = map (\<lambda>r. F (f r) (g r)) xs"
  by (induction xs) auto

lemma calculate_clv_result:
  assumes "df < length h"
  shows "calculate_clv h df m =
    Inr (h @ [(h ! df)\<lparr> ProjectedCLV := Some (map (\<lambda>r. TotalCharges r + MonthlyCharges r * m) (rows (h ! df))),
                       CLVAtRisk := Some (map (\<lambda>r. (TotalCharges r + MonthlyCharges r * m) * of_int (Churned r)) (rows (h ! df))) \<rparr>],
         length h)"
  using assms
  by (simp add: calculate_clv_def df_copy_def set_ProjectedCLV_def set_CLVAtRisk_def get_ProjectedCLV_def
      Let_def nth_append map2_same_list)

lemma prepare_row_Churned: "Churned (prepare_row r) = 0 \<or> Churned (prepare_row r) = 1"
  by (simp add: prepare_row_def Let_def churned_flag_def)

text \<open>
  C3. For every record of a table and every horizon, the CLV projector computes the
  projected CLV as total charge plus monthly charge times the horizon, and the CLV at risk
  as the projected CLV if the record is churned and 0 otherwise (the churn indicator being
  0 or 1, as the normalizer makes it); the default horizon is 36; a record with total
  charge 100 and monthly charge 50 gets 1900 under the default horizon.
\<close>

theorem clv_projection_formula:
  assumes "df < length h"
    and "\<forall>r \<in> set (rows (h ! df)). Churned r = 0 \<or> Churned r = 1"
  shows "(case calculate_clv h df horizon_months of
            Inl e \<Rightarrow> False
          | Inr (h', df') \<Rightarrow>
              rows (h' ! df') = rows (h ! df)
            \<and> ProjectedCLV (h' ! df') =
                Some (map (\<lambda>r. TotalCharges r + MonthlyCharges r * horizon_months) (rows (h ! df)))
            \<and> CLVAtRisk (h' ! df') =
                Some (map (\<lambda>r. if Churned r = 1
                                then TotalCharges r + MonthlyCharges r * horizon_months else 0)
                          (rows (h ! df))))
       \<and> calculate_clv_default h df = calculate_clv h df 36
       \<and> (\<forall>r \<in> set (rows (h ! df)). TotalCharges r = 100 \<and> MonthlyCharges r = 50 \<longrightarrow>
             TotalCharges r + MonthlyCharges r * default_projection_months = 1900)"
proof -
  have flag: "map (\<lambda>r. (TotalCharges r + MonthlyCharges r * horizon_months) * of_int (Churned r))
                  (rows (h ! df))
            = map (\<lambda>r. if Churned r = 1
                        then TotalCharges r + MonthlyCharges r * horizon_months else 0)
                  (rows (h ! df))"
  proof (rule map_cong [OF refl])
    fix r assume "r \<in> set (rows (h ! df))"
    with assms(2) have "Churned r = 0 \<or> Churned r = 1" by blast
    then show "(TotalCharges r + MonthlyCharges r * horizon_months) * of_int (Churned r)
             = (if Churned r = 1 then TotalCharges r + MonthlyCharges r * horizon_months else 0)"
      by auto
  qed
  have first: "(case calculate_clv h df horizon_months of
            Inl e \<Rightarrow> False
          | Inr (h', df') \<Rightarrow>
              rows (h' ! df') = rows (h ! df)
            \<and> ProjectedCLV (h' ! df') =
                Some (map (\<lambda>r. TotalCharges r + MonthlyCharges r * horizon_months) (rows (h ! df)))
            \<and> CLVAtRisk (h' ! df') =
                Some (map (\<lambda>r. if Churned r = 1
                                then TotalCharges r + MonthlyCharges r * horizon_months else 0)
                          (rows (h ! df))))"
    by (simp add: calculate_clv_result [OF assms(1)] flag)
  have second: "calculate_clv_default h df = calculate_clv h df 36"
    by (simp add: calculate_clv_default_def default_projection_months_def)
  have third: "\<forall>r \<in> set (rows (h ! df)). TotalCharges r = 100 \<and> MonthlyCharges r = 50 \<longrightarrow>
             TotalCharges r + MonthlyCharges r * default_projection_months = 1900"
    by (simp add: default_projection_months_def)
  from first second third show ?thesis by blast
qed

theorem clv_projection_witness:
  "(0::nat) < length [sample_table]
   \<and> calculate_clv [sample_table] 0 36 =
       Inr ([sample_table,
             sample_table\<lparr>ProjectedCLV := Some [1900, 1900], CLVAtRisk := Some [0, 1900]\<rparr>], 1)
   \<and> TotalCharges sample = 100 \<and> MonthlyCharges sample = 50"
proof -
  have len: "(0::nat) < length [sample_table]" by simp
  have flags: "\<forall>r \<in> set (rows ([sample_table] ! 0)). Churned r = 0 \<or> Churned r = 1"
    by (simp add: sample_table_def sample_def prepare_row_Churned)
  have vals: "TotalCharges sample = 100 \<and> MonthlyCharges sample = 50"
    by (simp add: sample_def sample_raw_def prepare_row_def Let_def fillna0_def)
  have res: "calculate_clv [sample_table] 0 36 =
       Inr ([sample_table,
             sample_table\<lparr>ProjectedCLV := Some [1900, 1900], CLVAtRisk := Some [0, 1900]\<rparr>], 1)"
    using clv_projection_formula [OF len flags, of 36]
    by (simp add: calculate_clv_result sample_table_def sample_def sample_raw_def prepare_row_def
        Let_def fillna0_def churned_flag_def)
  from len vals res show ?thesis by blast
qed



subsection \<open>Independence tester\<close>

lemma crosstab_rows: "length (crosstab index columns) = length (observed_categories (map fst (observed_pairs index columns)))"
  by (simp add: crosstab_def Let_def)

lemma crosstab_row_length:
  "row \<in> set (crosstab index columns) \<Longrightarrow> length row = length (observed_categories (map snd (observed_pairs index columns)))"
  by (auto simp add: crosstab_def Let_def)

lemma table_size_rect:
  "\<forall>row \<in> set t. length row = c \<Longrightarrow> table_size t = length t * c"
  by (induction t) (auto simp add: table_size_def)

lemma num_cols_rect:
  "\<forall>row \<in> set t. length row = c \<Longrightarrow> t \<noteq> [] \<Longrightarrow> num_cols t = c"
  by (cases t) (auto simp add: num_cols_def)

lemma transpose_single_row: "transpose [xs] = map (\<lambda>x. [x]) xs"
  by (induction xs) auto

lemma pearson_same: "sum_list (map2 (\<lambda>obs expd. (obs - expd)\<^sup>2 / expd) xs xs) = (0::real)"
  by (induction xs) auto

lemma pearson_single_row:
  assumes "sum_list row \<noteq> (0::real)"
  shows "pearson_statistic [row] (expected_freq [row]) = 0"
proof -
  have "map (sum_list \<circ> (\<lambda>x. [x])) row = row" by (induction row) auto
  then have "expected_freq [row] = [row]"
    using assms by (simp add: expected_freq_def Let_def transpose_single_row)
  then show ?thesis by (simp add: pearson_statistic_def pearson_same)
qed

lemma singletons: "\<forall>row \<in> set t. length row = Suc 0 \<Longrightarrow> t = map (\<lambda>x. [x]) (map hd t)"
proof (induction t)
  case Nil then show ?case by simp
next
  case (Cons r t)
  then have "length r = Suc 0" by simp
  then obtain x where "r = [x]" by (cases r) auto
  with Cons show ?case by simp
qed

lemma transpose_singletons: "v \<noteq> [] \<Longrightarrow> transpose (map (\<lambda>x. [x]) v) = [v]"
proof -
  assume ne: "v \<noteq> []"
  let ?xs = "map (\<lambda>x. [x]) v"
  have "transpose ?xs = map (\<lambda>i. map (\<lambda>j. ?xs ! j ! i) [0..<length ?xs]) [0..<1]"
    by (rule transpose_rectangle) (use ne in auto)
  also have "\<dots> = [map (\<lambda>j. v ! j) [0..<length v]]" by simp
  also have "\<dots> = [v]" by (simp add: map_nth)
  finally show ?thesis .
qed

lemma pearson_single_col:
  assumes "sum_list v \<noteq> (0::real)"
  shows "pearson_statistic (map (\<lambda>x. [x]) v) (expected_freq (map (\<lambda>x. [x]) v)) = 0"
proof -
  from assms have ne: "v \<noteq> []" by auto
  have rs: "map (sum_list \<circ> (\<lambda>x. [x])) v = v" by (induction v) auto
  have "expected_freq (map (\<lambda>x. [x]) v) = map (\<lambda>x. [x]) v"
    using assms by (simp add: expected_freq_def Let_def transpose_singletons [OF ne] rs)
  then show ?thesis by (simp add: pearson_statistic_def pearson_same)
qed


lemma chi2_contingency_statistic:
  assumes rect: "\<forall>row \<in> set counts. length row = c"
    and res: "chi2_contingency sf counts = Inr (Chi2 chi2 p dof)"
  shows "dof = (int (length counts) - 1) * (int c - 1)
       \<and> chi2 = (let observed = map (map real) counts; expected = expected_freq observed
                 in if dof = 1 then pearson_statistic (map2 (map2 yates) observed expected) expected
                    else pearson_statistic observed expected)"
proof -
  let ?obs = "map (map real) counts"
  let ?d = "int (table_size ?obs) - (int (num_rows ?obs) + int (num_cols ?obs)) + 2 - 1"
  from rect have rect': "\<forall>row \<in> set ?obs. length row = c" by simp
  from res have size: "table_size ?obs \<noteq> 0"
    by (auto simp add: chi2_contingency_def Let_def split: if_splits)
  then have ne: "?obs \<noteq> []" by (auto simp add: table_size_def)
  from res size have total: "sum_list (map sum_list ?obs) \<noteq> 0"
    by (auto simp add: chi2_contingency_def Let_def split: if_splits)
  have d: "?d = (int (length counts) - 1) * (int c - 1)"
    using table_size_rect [OF rect'] num_cols_rect [OF rect' ne]
    by (simp add: num_rows_def algebra_simps)
  from res size total have dof: "dof = ?d"
    by (auto simp add: chi2_contingency_def Let_def split: if_splits)
  have stat: "chi2 = (if dof = 1 then pearson_statistic (map2 (map2 yates) ?obs (expected_freq ?obs)) (expected_freq ?obs)
                    else pearson_statistic ?obs (expected_freq ?obs))"
  proof (cases "dof = 0")
    case False
    with res size total show ?thesis
      by (auto simp add: chi2_contingency_def Let_def split: if_splits)
  next
    case True
    with res size total have zero: "chi2 = 0"
      by (auto simp add: chi2_contingency_def Let_def split: if_splits)
    from True dof d have "length counts = 1 \<or> c = 1" by auto
    then have "pearson_statistic ?obs (expected_freq ?obs) = 0"
    proof
      assume "length counts = 1"
      then obtain row where row: "counts = [row]" by (cases counts) auto
      with total have "sum_list (map real row) \<noteq> 0" by simp
      from pearson_single_row [OF this] row show ?thesis by simp
    next
      assume "c = 1"
      with rect' have "?obs = map (\<lambda>x. [x]) (map hd ?obs)"
        by (intro singletons) simp
      moreover have "sum_list (map hd ?obs) \<noteq> 0"
      proof -
        have "map sum_list (map (\<lambda>x. [x]) (map hd ?obs)) = map hd ?obs"
          by (simp add: comp_def)
        with \<open>?obs = map (\<lambda>x. [x]) (map hd ?obs)\<close> have eq: "map sum_list ?obs = map hd ?obs"
          by metis
        from total [unfolded eq] show ?thesis .
      qed
      ultimately show ?thesis using pearson_single_col [of "map hd ?obs"] by metis
    qed
    with zero True show ?thesis by simp
  qed
  from dof d stat show ?thesis by (simp add: Let_def)
qed

lemma count_observed_pairs:
  "count_list (observed_pairs (map f df) (map g df)) (a, b)
   = length (filter (\<lambda>r. f r = Some a \<and> g r = Some b) df)"
  by (induction df)
     (auto simp add: observed_pairs_def List.map_filter_def both_present_def split: option.splits)

lemma length_observed_categories: "length (observed_categories vs) = card (set vs)"
  by (simp add: observed_categories_def length_remdups_card_conv)

text \<open>
  C7 (amended). For every pair of categorical fields on which the independence tester
  returns a statistic, the contingency table holds, for every pair of an observed category
  of the first field and an observed category of the second, the number of records with
  these two values; the degrees of freedom are (rows - 1) * (cols - 1); the statistic is the
  standard Pearson chi-square statistic against the expected counts under independence,
  except for one degree of freedom (a table of 2 rows and 2 columns), where it is the
  Pearson statistic of the observed counts after Yates' continuity correction.
\<close>

theorem chi_square_test_statistic:
  assumes "chi_square_test sf df column1 column2 = Inr (Chi2 chi2 p_value dof)"
  shows "(let pairs = observed_pairs (map (getcol column1) df) (map (getcol column2) df);
              row_keys = observed_categories (map fst pairs);
              col_keys = observed_categories (map snd pairs);
              contingency = crosstab (map (getcol column1) df) (map (getcol column2) df);
              observed = map (map real) contingency;
              expected = expected_freq observed
          in contingency =
               map (\<lambda>a. map (\<lambda>b. length (filter (\<lambda>r. getcol column1 r = Some a
                                                      \<and> getcol column2 r = Some b) df)) col_keys)
                   row_keys
           \<and> set row_keys = fst ` set pairs \<and> distinct row_keys
           \<and> set col_keys = snd ` set pairs \<and> distinct col_keys
           \<and> dof = (int (length row_keys) - 1) * (int (length col_keys) - 1)
           \<and> chi2 = (if dof = 1
                     then pearson_statistic (map2 (map2 yates) observed expected) expected
                     else pearson_statistic observed expected))"
proof -
  let ?i = "map (getcol column1) df" and ?c = "map (getcol column2) df"
  let ?pairs = "observed_pairs ?i ?c"
  let ?rk = "observed_categories (map fst ?pairs)" and ?ck = "observed_categories (map snd ?pairs)"
  let ?t = "crosstab ?i ?c"
  have cells: "?t = map (\<lambda>a. map (\<lambda>b. length (filter (\<lambda>r. getcol column1 r = Some a
                                                      \<and> getcol column2 r = Some b) df)) ?ck) ?rk"
    by (simp add: crosstab_def Let_def count_observed_pairs)
  have keys: "set ?rk = fst ` set ?pairs" "distinct ?rk" "set ?ck = snd ` set ?pairs" "distinct ?ck"
    by (simp_all add: observed_categories_def)
  have rect: "\<forall>row \<in> set ?t. length row = length ?ck"
    by (simp add: crosstab_row_length)
  from assms have "chi2_contingency sf ?t = Inr (Chi2 chi2 p_value dof)"
    by (simp add: chi_square_test_def Let_def)
  from chi2_contingency_statistic [OF rect this]
  have "dof = (int (length ?rk) - 1) * (int (length ?ck) - 1)"
    and "chi2 = (if dof = 1
                 then pearson_statistic (map2 (map2 yates) (map (map real) ?t) (expected_freq (map (map real) ?t)))
                        (expected_freq (map (map real) ?t))
                 else pearson_statistic (map (map real) ?t) (expected_freq (map (map real) ?t)))"
    by (simp_all add: crosstab_rows Let_def)
  with cells keys show ?thesis
    unfolding Let_def by blast
qed

lemma four_customers_crosstab:
  "crosstab (map (getcol Partner_col) four_customers) (map (getcol Churn_col) four_customers) = [[2, 0], [0, 2]]"
  by code_simp

text \<open>
  On the four customers the table of Partner against Churn is [[2, 0], [0, 2]], every
  expected count is 1, and the standard Pearson statistic is 4. The tester returns 1: each
  observed count is moved by 0.5 towards 1 first.
\<close>

theorem chi_square_test_counterexample:
  "crosstab (map (getcol Partner_col) four_customers) (map (getcol Churn_col) four_customers)
     = [[2, 0], [0, 2]]
   \<and> chi_square_test (\<lambda>chi2 dof. 0) four_customers Partner_col Churn_col = Inr (Chi2 1 0 1)
   \<and> pearson_statistic [[2, 0], [0, 2]] (expected_freq [[2, 0], [0, 2]]) = 4"
proof -
  have a: "chi_square_test (\<lambda>chi2 dof. 0) four_customers Partner_col Churn_col = Inr (Chi2 1 0 1)"
    by code_simp
  have b: "pearson_statistic [[2, 0], [0, 2]] (expected_freq [[2, 0], [0, 2]]) = 4"
    by code_simp
  from four_customers_crosstab a b show ?thesis by blast
qed

theorem chi_square_test_witness:
  "chi_square_test (\<lambda>chi2 dof. 0) four_customers Partner_col Churn_col = Inr (Chi2 1 0 1)
   \<and> (1::int) = (int (length (observed_categories (map fst
          (observed_pairs (map (getcol Partner_col) four_customers) (map (getcol Churn_col) four_customers))))) - 1)
        * (int (length (observed_categories (map snd
          (observed_pairs (map (getcol Partner_col) four_customers) (map (getcol Churn_col) four_customers))))) - 1)"
proof -
  have a: "chi_square_test (\<lambda>chi2 dof. 0) four_customers Partner_col Churn_col = Inr (Chi2 1 0 1)"
    by code_simp
  from chi_square_test_statistic [OF a] a show ?thesis
    unfolding Let_def by blast
qed

subsection \<open>Impact estimator\<close>
















subsection \<open>The script and the missing data source\<close>

lemma script_not_found:
  assumes "fs DATA_PATH = NotFound"
  shows "script sf fs = Inr \<lparr> tables = [], the_df = None, segment_analyses = None, results = None,
                             active_customers = None, churned_customers = None, impact = None \<rparr>"
proof -
  let ?s0 = "\<lparr> tables = [], the_df = None, segment_analyses = None, results = None,
              active_customers = None, churned_customers = None, impact = None \<rparr>"
  from assms have load: "load_section fs = Inr ?s0"
    by (simp add: load_section_def load_and_prepare_data_def)
  have seg: "segment_section ?s0 = ?s0" by (simp add: segment_section_def)
  have sig: "significance_section sf ?s0 = Inr ?s0" by (simp add: significance_section_def)
  have clv: "clv_section ?s0 = Inr ?s0" by (simp add: clv_section_def)
  have risk: "risk_section ?s0 = ?s0" by (simp add: risk_section_def)
  have imp: "impact_section ?s0 = Inr ?s0" by (simp add: impact_section_def)
  show ?thesis
    by (simp add: script_def then_run_def load seg sig clv risk imp)
qed

lemma script_unreadable: "fs DATA_PATH = Unreadable e \<Longrightarrow> script sf fs = Inl e"
  by (simp add: script_def then_run_def load_section_def load_and_prepare_data_def)

text \<open>
  C8. If the data source cannot be located, normalization signals the failure: it returns
  no record set (\<open>None\<close>), and no downstream stage runs, so the run ends with no table,
  no segment analysis, no test result, no scored customer and no impact summary. A run
  that ends with any of these has located the file and normalized its rows, and a run
  that ends in an error has not met a missing file.
\<close>

theorem missing_data_source_reaches_no_stage:
  "(fs DATA_PATH = NotFound \<longrightarrow>
        load_and_prepare_data fs DATA_PATH = Inr None
      \<and> script sf fs = Inr \<lparr> tables = [], the_df = None, segment_analyses = None,
                              results = None, active_customers = None,
                              churned_customers = None, impact = None \<rparr>)
   \<and> (\<forall>s. script sf fs = Inr s
          \<and> (tables s \<noteq> [] \<or> the_df s \<noteq> None \<or> segment_analyses s \<noteq> None \<or> results s \<noteq> None
             \<or> active_customers s \<noteq> None \<or> churned_customers s \<noteq> None \<or> impact s \<noteq> None)
        \<longrightarrow> (\<exists>raw. fs DATA_PATH = Contents raw
                  \<and> load_and_prepare_data fs DATA_PATH = Inr (Some (map prepare_row raw))))
   \<and> (\<forall>e. script sf fs = Inl e \<longrightarrow> fs DATA_PATH \<noteq> NotFound)"
proof (cases "fs DATA_PATH")
  case NotFound
  then show ?thesis
    by (simp add: script_not_found load_and_prepare_data_def)
next
  case (Unreadable e)
  then show ?thesis
    by (simp add: script_unreadable)
next
  case (Contents raw)
  then show ?thesis
    by (simp add: load_and_prepare_data_def)
qed

lemma one_file_run:
  "(case script (\<lambda>chi2 dof. 0) one_file of
      Inl e \<Rightarrow> False
    | Inr s \<Rightarrow> the_df s = Some 1 \<and> length (tables s) = 2 \<and> segment_analyses s \<noteq> None
               \<and> results s \<noteq> None \<and> active_customers s \<noteq> None \<and> impact s \<noteq> None)"
  by code_simp

theorem missing_data_source_witness:
  "no_file DATA_PATH = NotFound
   \<and> load_and_prepare_data no_file DATA_PATH = Inr None
   \<and> script (\<lambda>chi2 dof. 0) no_file =
        Inr \<lparr> tables = [], the_df = None, segment_analyses = None, results = None,
              active_customers = None, churned_customers = None, impact = None \<rparr>
   \<and> one_file DATA_PATH = Contents full_table
   \<and> (case script (\<lambda>chi2 dof. 0) one_file of
        Inl e \<Rightarrow> False
      | Inr s \<Rightarrow> the_df s = Some 1 \<and> impact s \<noteq> None)"
proof -
  have nf: "no_file DATA_PATH = NotFound" by (simp add: no_file_def)
  have a: "load_and_prepare_data no_file DATA_PATH = Inr None
      \<and> script (\<lambda>chi2 dof. 0) no_file =
        Inr \<lparr> tables = [], the_df = None, segment_analyses = None, results = None,
              active_customers = None, churned_customers = None, impact = None \<rparr>"
    using missing_data_source_reaches_no_stage [of no_file "\<lambda>chi2 dof. 0"] nf by blast
  have b: "one_file DATA_PATH = Contents full_table" by (simp add: one_file_def)
  from one_file_run have c: "(case script (\<lambda>chi2 dof. 0) one_file of
        Inl e \<Rightarrow> False
      | Inr s \<Rightarrow> the_df s = Some 1 \<and> impact s \<noteq> None)"
    by (simp split: sum.splits)
  from nf a b c show ?thesis by blast
qed

end
